theory Spec2Isabelle
  imports Complex_Main
begin

section \<open>The calculator widget of ui-framework/accudraw/Calculator.tsx\<close>

text \<open>
  The theory embeds the React component \<^verbatim>\<open>Calculator\<close> and its key pad. The component keeps
  two pieces of state of its own, \<^verbatim>\<open>this.state.displayValue\<close> and the private flag
  \<^verbatim>\<open>this._equalsClicked\<close> (the spec's \<^verbatim>\<open>resultFinalized\<close>), and drives an engine object it
  receives as a prop. Every handler is a function from the state before to the state after.
  The calls a handler makes to the outside (the engine, the host's callbacks, the focus of the
  main div) are appended, in the order the code makes them, to a list of effects carried in
  the state, so that statements about what was called, with what argument and in which order
  are statements about that list.
\<close>

subsection \<open>Operators and numbers\<close>

text \<open>
  Modelled from the spec: the enumeration \<^verbatim>\<open>CalculatorOperator\<close> is declared in
  CalculatorEngine.ts, which is not among the sources. Its members are the ten operators
  that Calculator.tsx names and that section 3 of the spec lists.
\<close>

datatype CalculatorOperator =
  ClearAll | Clear | Backspace | Divide | Multiply | Subtract | Add | Decimal | Equals | NegPos

text \<open>
  A JavaScript number, as far as the component looks at one: it tests the initial value for
  truthiness, converts it to a string, and hands the engine's result to the host. A finite
  number is kept as the rational it denotes (the two zeros coincide, and both are falsy).
\<close>

datatype number = NaN | PosInfinity | NegInfinity | Finite rat

text \<open>\<^verbatim>\<open>if (this.props.initialValue)\<close>: a number is falsy when it is a zero or NaN.\<close>

definition truthy :: "number \<Rightarrow> bool" where
  "truthy v = (v \<noteq> NaN \<and> v \<noteq> Finite 0)"

subsection \<open>The engine, the props and the state\<close>

text \<open>
  The class \<^verbatim>\<open>CalculatorEngine\<close> is not among the sources, so the engine is a parameter: the
  four members the component uses, over the engine's internal state \<open>'e\<close>. A method that
  mutates the engine and returns a display string returns the pair of both. The calls are
  total, as the engine's contract (section 6 of the spec) requires.
\<close>

record 'e CalculatorEngine =
  processValue :: "string \<Rightarrow> 'e \<Rightarrow> string \<times> 'e"
  processOperator :: "CalculatorOperator \<Rightarrow> 'e \<Rightarrow> string \<times> 'e"
  clearAll :: "'e \<Rightarrow> 'e"
  result :: "'e \<Rightarrow> number"

text \<open>
  \<^verbatim>\<open>CalculatorProps\<close>, without the props that only style the widget. The two callbacks are
  optional; the model records whether the host supplied one, and a call of it is an effect.
\<close>

record 'e CalculatorProps =
  initialValue :: "number option"
  onOk :: bool
  onCancel :: bool
  engine :: "'e CalculatorEngine"

datatype effect =
    EngineProcessValue string
  | EngineProcessOperator CalculatorOperator
  | EngineClearAll
  | EngineResult
  | HostOnOk number
  | HostOnCancel
  | MainDivFocus

text \<open>
  The component: \<open>displayValue\<close> is \<^verbatim>\<open>this.state.displayValue\<close>, \<open>equalsClicked\<close> is
  \<^verbatim>\<open>this._equalsClicked\<close>, \<open>engineState\<close> is the internal state of \<^verbatim>\<open>this.props.engine\<close>,
  \<open>mainDivCurrent\<close> says whether \<^verbatim>\<open>this._mainDiv.current\<close> is set, and \<open>effects\<close> lists the
  outside calls made so far, oldest first.
\<close>

record 'e Calculator =
  displayValue :: string
  equalsClicked :: bool
  engineState :: 'e
  mainDivCurrent :: bool
  effects :: "effect list"

subsection \<open>The methods of the component\<close>

text \<open>
  The constructor. \<open>toString\<close> is JavaScript's \<^verbatim>\<open>Number.prototype.toString\<close>, a parameter
  (its digits for a double are floating-point matter); \<open>e\<close> is the state in which the engine is
  handed over.
\<close>

definition Calculator_constructor ::
  "(number \<Rightarrow> string) \<Rightarrow> 'e CalculatorProps \<Rightarrow> 'e \<Rightarrow> 'e Calculator" where
  "Calculator_constructor toString P e =
     (let s0 = \<lparr>displayValue = ''0'', equalsClicked = False, engineState = e,
                mainDivCurrent = False, effects = []\<rparr>
      in case initialValue P of
           None \<Rightarrow> s0
         | Some v \<Rightarrow>
             if truthy v
             then (case processValue (engine P) (toString v) e of
                     (dv, e') \<Rightarrow>
                       s0\<lparr>displayValue := dv, engineState := e',
                          effects := [EngineProcessValue (toString v)]\<rparr>)
             else s0)"

definition mainDivFocus :: "'e Calculator \<Rightarrow> 'e Calculator" where
  "mainDivFocus s =
     (if mainDivCurrent s then s\<lparr>effects := effects s @ [MainDivFocus]\<rparr> else s)"

text \<open>React attaches the ref of the main div before it calls \<^verbatim>\<open>componentDidMount\<close>.\<close>

definition componentDidMount :: "'e Calculator \<Rightarrow> 'e Calculator" where
  "componentDidMount s = mainDivFocus (s\<lparr>mainDivCurrent := True\<rparr>)"

text \<open>\<^verbatim>\<open>_onValueButtonClick\<close>, the spec's \<^verbatim>\<open>submitValue\<close>.\<close>

definition onValueButtonClick ::
  "'e CalculatorProps \<Rightarrow> string \<Rightarrow> 'e Calculator \<Rightarrow> 'e Calculator" where
  "onValueButtonClick P keyChar s =
     (case processValue (engine P) keyChar (engineState s) of
        (dv, e') \<Rightarrow>
          (mainDivFocus
             (s\<lparr>engineState := e', effects := effects s @ [EngineProcessValue keyChar]\<rparr>))
          \<lparr>displayValue := dv\<rparr>)"

text \<open>\<^verbatim>\<open>_onOperatorButtonClick\<close>, the spec's \<^verbatim>\<open>submitOperator\<close>.\<close>

definition onOperatorButtonClick ::
  "'e CalculatorProps \<Rightarrow> CalculatorOperator \<Rightarrow> 'e Calculator \<Rightarrow> 'e Calculator" where
  "onOperatorButtonClick P operator s =
     (let op = (if operator = Clear \<and> equalsClicked s then ClearAll else operator)
      in case processOperator (engine P) op (engineState s) of
           (dv, e') \<Rightarrow>
             (let s1 = (mainDivFocus
                          (s\<lparr>engineState := e',
                             effects := effects s @ [EngineProcessOperator op]\<rparr>))
                       \<lparr>displayValue := dv\<rparr>
              in if op = Equals then s1\<lparr>equalsClicked := True\<rparr>
                 else if op = ClearAll then s1\<lparr>equalsClicked := False\<rparr>
                 else s1))"

text \<open>\<^verbatim>\<open>_clearAll\<close> (the name \<open>clearAll\<close> is the engine's method).\<close>

definition Calculator_clearAll :: "'e CalculatorProps \<Rightarrow> 'e Calculator \<Rightarrow> 'e Calculator" where
  "Calculator_clearAll P s =
     s\<lparr>engineState := clearAll (engine P) (engineState s),
       effects := effects s @ [EngineClearAll],
       equalsClicked := False\<rparr>"

text \<open>\<^verbatim>\<open>_ok\<close>, the spec's \<^verbatim>\<open>commit\<close>: the argument of the callback is read before the call.\<close>

definition ok :: "'e CalculatorProps \<Rightarrow> 'e Calculator \<Rightarrow> 'e Calculator" where
  "ok P s =
     Calculator_clearAll P
       (if onOk P
        then s\<lparr>effects := effects s @ [EngineResult, HostOnOk (result (engine P) (engineState s))]\<rparr>
        else s)"

text \<open>\<^verbatim>\<open>_cancel\<close>, the spec's \<^verbatim>\<open>cancel\<close>.\<close>

definition cancel :: "'e CalculatorProps \<Rightarrow> 'e Calculator \<Rightarrow> 'e Calculator" where
  "cancel P s =
     Calculator_clearAll P
       (if onCancel P then s\<lparr>effects := effects s @ [HostOnCancel]\<rparr> else s)"

text \<open>\<^verbatim>\<open>_handleKeyDown\<close>: the switch on \<^verbatim>\<open>event.key\<close>, case by case; it has no default.\<close>

definition handleKeyDown ::
  "'e CalculatorProps \<Rightarrow> string \<Rightarrow> 'e Calculator \<Rightarrow> 'e Calculator" where
  "handleKeyDown P key s =
     (if key = ''0'' \<or> key = ''1'' \<or> key = ''2'' \<or> key = ''3'' \<or> key = ''4'' \<or>
         key = ''5'' \<or> key = ''6'' \<or> key = ''7'' \<or> key = ''8'' \<or> key = ''9''
      then onValueButtonClick P key s
      else if key = ''a'' \<or> key = ''A'' then onOperatorButtonClick P ClearAll s
      else if key = ''c'' \<or> key = ''C'' \<or> key = ''Clear''
      then onOperatorButtonClick P Clear s
      else if key = ''Escape'' then cancel P s
      else if key = ''Backspace'' then onOperatorButtonClick P Backspace s
      else if key = ''/'' \<or> key = ''Divide'' then onOperatorButtonClick P Divide s
      else if key = ''*'' \<or> key = ''Multiply'' then onOperatorButtonClick P Multiply s
      else if key = ''-'' \<or> key = ''Subtract'' then onOperatorButtonClick P Subtract s
      else if key = ''+'' \<or> key = ''Add'' then onOperatorButtonClick P Add s
      else if key = ''.'' \<or> key = ''Decimal'' then onOperatorButtonClick P Decimal s
      else if key = ''='' then onOperatorButtonClick P Equals s
      else if key = ''Enter''
      then ok P (if \<not> equalsClicked s then onOperatorButtonClick P Equals s else s)
      else s)"

subsection \<open>The key pad\<close>

text \<open>
  The buttons that \<^verbatim>\<open>CalculatorKeyPad.render\<close> creates, in its order. A click on an
  \<^verbatim>\<open>OperatorButton\<close> calls \<^verbatim>\<open>onClick(operator)\<close>, one on a \<^verbatim>\<open>ValueButton\<close> calls
  \<^verbatim>\<open>onClick(keyChar)\<close>, and the component passes \<^verbatim>\<open>_onOperatorButtonClick\<close> and
  \<^verbatim>\<open>_onValueButtonClick\<close> for them.
\<close>

datatype button = OperatorButton CalculatorOperator | ValueButton string

definition CalculatorKeyPad :: "button list" where
  "CalculatorKeyPad =
     [OperatorButton ClearAll, OperatorButton Clear, OperatorButton Backspace,
      OperatorButton Divide,
      ValueButton ''7'', ValueButton ''8'', ValueButton ''9'', OperatorButton Multiply,
      ValueButton ''4'', ValueButton ''5'', ValueButton ''6'', OperatorButton Subtract,
      ValueButton ''1'', ValueButton ''2'', ValueButton ''3'', OperatorButton Add,
      ValueButton ''0'', OperatorButton NegPos, OperatorButton Decimal,
      OperatorButton Equals]"

fun handleOnClick :: "'e CalculatorProps \<Rightarrow> button \<Rightarrow> 'e Calculator \<Rightarrow> 'e Calculator" where
  "handleOnClick P (OperatorButton operator) s = onOperatorButtonClick P operator s"
| "handleOnClick P (ValueButton keyChar) s = onValueButtonClick P keyChar s"

subsection \<open>Sequences of value and operator actions\<close>

datatype action = Value string | Operator CalculatorOperator

fun submit :: "'e CalculatorProps \<Rightarrow> action \<Rightarrow> 'e Calculator \<Rightarrow> 'e Calculator" where
  "submit P (Value keyChar) s = onValueButtonClick P keyChar s"
| "submit P (Operator operator) s = onOperatorButtonClick P operator s"

fun submitAll :: "'e CalculatorProps \<Rightarrow> action list \<Rightarrow> 'e Calculator \<Rightarrow> 'e Calculator" where
  "submitAll P [] s = s"
| "submitAll P (a # as) s = submitAll P as (submit P a s)"

subsection \<open>The key table of the spec\<close>

text \<open>
  The keys that the table of section 4.1 of the spec lists, row by row. Its first row is
  the keys \<^verbatim>\<open>0\<close> to \<^verbatim>\<open>9\<close>: the one-character strings of the ten digits.
\<close>

definition digitKeys :: "string list" where
  "digitKeys = map (\<lambda>c. [c]) ''0123456789''"

definition keyTable :: "string list" where
  "keyTable =
     digitKeys @
     [''a'', ''A'',
      ''c'', ''C'', ''Clear'',
      ''Backspace'',
      ''/'', ''Divide'',
      ''*'', ''Multiply'',
      ''-'', ''Subtract'',
      ''+'', ''Add'',
      ''.'', ''Decimal'',
      ''='',
      ''Escape'',
      ''Enter'']"

subsection \<open>A concrete engine and number formatting, for concrete runs\<close>

text \<open>
  Modelled from the spec: CalculatorEngine.ts is not among the sources. This engine meets
  the contract of section 6 in the smallest way: it holds the entry being typed, clears it
  to \<^verbatim>\<open>"0"\<close>, and reports the entry as its result; the arithmetic operators leave the entry
  as it is. It serves only to run the component on concrete inputs; every general theorem
  below holds for any engine.
\<close>

record entryEngine =
  display :: string

fun parseDigits :: "nat \<Rightarrow> string \<Rightarrow> nat option" where
  "parseDigits acc [] = Some acc"
| "parseDigits acc (c # cs) =
     (if (48::nat) \<le> of_char c \<and> of_char c \<le> (57::nat)
      then parseDigits (10 * acc + (of_char c - 48)) cs
      else None)"

definition entry_processValue :: "string \<Rightarrow> entryEngine \<Rightarrow> string \<times> entryEngine" where
  "entry_processValue keyChar e =
     (let d = (if display e = ''0'' then keyChar else display e @ keyChar)
      in (d, e\<lparr>display := d\<rparr>))"

definition entry_processOperator ::
  "CalculatorOperator \<Rightarrow> entryEngine \<Rightarrow> string \<times> entryEngine" where
  "entry_processOperator operator e =
     (let d = (if operator = ClearAll \<or> operator = Clear then ''0''
               else if operator = Backspace
               then (if length (display e) \<le> 1 then ''0'' else butlast (display e))
               else display e)
      in (d, e\<lparr>display := d\<rparr>))"

definition entry_clearAll :: "entryEngine \<Rightarrow> entryEngine" where
  "entry_clearAll e = e\<lparr>display := ''0''\<rparr>"

definition entry_result :: "entryEngine \<Rightarrow> number" where
  "entry_result e =
     (case display e of
        [] \<Rightarrow> NaN
      | c # cs \<Rightarrow> (case parseDigits 0 (c # cs) of None \<Rightarrow> NaN | Some n \<Rightarrow> Finite (of_nat n)))"

definition entryEngineOps :: "entryEngine CalculatorEngine" where
  "entryEngineOps =
     \<lparr>processValue = entry_processValue, processOperator = entry_processOperator,
      clearAll = entry_clearAll, result = entry_result\<rparr>"

text \<open>A fresh engine shows \<^verbatim>\<open>"0"\<close>.\<close>

definition newEntryEngine :: entryEngine where
  "newEntryEngine = \<lparr>display = ''0''\<rparr>"

text \<open>Props with both callbacks supplied, and with none.\<close>

definition entryProps :: "number option \<Rightarrow> entryEngine CalculatorProps" where
  "entryProps v = \<lparr>initialValue = v, onOk = True, onCancel = True, engine = entryEngineOps\<rparr>"

definition bareProps :: "entryEngine CalculatorProps" where
  "bareProps = \<lparr>initialValue = None, onOk = False, onCancel = False, engine = entryEngineOps\<rparr>"

text \<open>
  \<^verbatim>\<open>Number.prototype.toString\<close> on the numbers that need no floating-point formatting: the
  three special values and the integers (below the exponent notation). On any other number
  this instance writes the integer part only; it is applied to integers alone.
\<close>

function natToString :: "nat \<Rightarrow> string" where
  "natToString n =
     (if n < 10 then [''0123456789'' ! n]
      else natToString (n div 10) @ [''0123456789'' ! (n mod 10)])"
  by pat_completeness auto
termination
  by (relation "measure id") auto

definition integralToString :: "number \<Rightarrow> string" where
  "integralToString v =
     (case v of
        NaN \<Rightarrow> ''NaN''
      | PosInfinity \<Rightarrow> ''Infinity''
      | NegInfinity \<Rightarrow> ''-Infinity''
      | Finite q \<Rightarrow>
          (if q < 0 then ''-'' @ natToString (nat \<lfloor>- q\<rfloor>) else natToString (nat \<lfloor>q\<rfloor>)))"

text \<open>
  A widget on the concrete engine, constructed without an initial value and mounted; and
  the same widget after the \<^verbatim>\<open>=\<close> button.
\<close>

definition mountedCalculator :: "entryEngine Calculator" where
  "mountedCalculator =
     componentDidMount (Calculator_constructor integralToString (entryProps None) newEntryEngine)"

definition finalizedCalculator :: "entryEngine Calculator" where
  "finalizedCalculator = onOperatorButtonClick (entryProps None) Equals mountedCalculator"

section \<open>What each handler does to the state\<close>

lemmas entry_defs = entryEngineOps_def entry_processValue_def entry_processOperator_def
  entry_clearAll_def entry_result_def entryProps_def bareProps_def newEntryEngine_def

lemmas handler_defs = onValueButtonClick_def onOperatorButtonClick_def mainDivFocus_def
  Calculator_clearAll_def ok_def cancel_def componentDidMount_def

lemma effects_onValueButtonClick:
  "effects (onValueButtonClick P keyChar s) =
     effects s @ EngineProcessValue keyChar # (if mainDivCurrent s then [MainDivFocus] else [])"
  by (simp add: onValueButtonClick_def mainDivFocus_def split: prod.splits)

lemma effects_onOperatorButtonClick:
  "effects (onOperatorButtonClick P operator s) =
     effects s @
     EngineProcessOperator (if operator = Clear \<and> equalsClicked s then ClearAll else operator) #
     (if mainDivCurrent s then [MainDivFocus] else [])"
  by (simp add: onOperatorButtonClick_def mainDivFocus_def Let_def split: prod.splits)

lemma engineState_onOperatorButtonClick:
  "engineState (onOperatorButtonClick P operator s) =
     snd (processOperator (engine P)
            (if operator = Clear \<and> equalsClicked s then ClearAll else operator) (engineState s))"
  by (simp add: onOperatorButtonClick_def mainDivFocus_def Let_def split: prod.splits)

lemma displayValue_onOperatorButtonClick:
  "displayValue (onOperatorButtonClick P operator s) =
     fst (processOperator (engine P)
            (if operator = Clear \<and> equalsClicked s then ClearAll else operator) (engineState s))"
  by (simp add: onOperatorButtonClick_def mainDivFocus_def Let_def split: prod.splits)

lemma equalsClicked_onValueButtonClick:
  "equalsClicked (onValueButtonClick P keyChar s) = equalsClicked s"
  by (simp add: onValueButtonClick_def mainDivFocus_def split: prod.splits)

lemma equalsClicked_onOperatorButtonClick:
  "equalsClicked (onOperatorButtonClick P operator s) =
     (operator = Equals \<or> (equalsClicked s \<and> operator \<noteq> ClearAll \<and> operator \<noteq> Clear))"
  by (cases operator)
    (simp_all add: onOperatorButtonClick_def mainDivFocus_def Let_def split: prod.splits)

lemma effects_ok:
  "effects (ok P s) =
     effects s @
     (if onOk P then [EngineResult, HostOnOk (result (engine P) (engineState s))] else []) @
     [EngineClearAll]"
  by (simp add: ok_def Calculator_clearAll_def)

lemma effects_cancel:
  "effects (cancel P s) =
     effects s @ (if onCancel P then [HostOnCancel] else []) @ [EngineClearAll]"
  by (simp add: cancel_def Calculator_clearAll_def)

lemma reset_ok:
  "engineState (ok P s) = clearAll (engine P) (engineState s) \<and>
   equalsClicked (ok P s) = False \<and>
   displayValue (ok P s) = displayValue s \<and>
   mainDivCurrent (ok P s) = mainDivCurrent s"
  by (simp add: ok_def Calculator_clearAll_def)

lemma reset_cancel:
  "engineState (cancel P s) = clearAll (engine P) (engineState s) \<and>
   equalsClicked (cancel P s) = False \<and>
   displayValue (cancel P s) = displayValue s \<and>
   mainDivCurrent (cancel P s) = mainDivCurrent s"
  by (simp add: cancel_def Calculator_clearAll_def)

text \<open>No key of the keyboard does what the \<^verbatim>\<open>NegPos\<close> button does.\<close>

lemma key_never_NegPos: "handleKeyDown P key s \<noteq> onOperatorButtonClick P NegPos s"
proof
  assume "handleKeyDown P key s = onOperatorButtonClick P NegPos s"
  then have "effects (handleKeyDown P key s) = effects (onOperatorButtonClick P NegPos s)"
    by simp
  then show False
    by (simp add: handleKeyDown_def effects_onValueButtonClick effects_onOperatorButtonClick
        effects_ok effects_cancel split: if_splits)
qed

text \<open>The flag stays down along any run of actions without \<^verbatim>\<open>Equals\<close>.\<close>

lemma submitAll_not_finalized:
  "\<not> equalsClicked s \<Longrightarrow> Operator Equals \<notin> set as \<Longrightarrow> \<not> equalsClicked (submitAll P as s)"
proof (induction as arbitrary: s)
  case Nil
  then show ?case by simp
next
  case (Cons a as)
  have "\<not> equalsClicked (submit P a s)"
  proof (cases a)
    case (Value keyChar)
    with Cons.prems show ?thesis
      by (simp add: equalsClicked_onValueButtonClick)
  next
    case (Operator operator)
    with Cons.prems show ?thesis
      by (auto simp add: equalsClicked_onOperatorButtonClick)
  qed
  with Cons show ?case by simp
qed

lemma constructor_not_finalized:
  "\<not> equalsClicked (Calculator_constructor toString P e)"
  "\<not> equalsClicked (componentDidMount (Calculator_constructor toString P e))"
  by (simp_all add: Calculator_constructor_def componentDidMount_def mainDivFocus_def Let_def
      split: option.splits prod.splits)

text \<open>The two concrete widgets, evaluated.\<close>

lemma mountedCalculator_eq:
  "mountedCalculator =
     \<lparr>displayValue = ''0'', equalsClicked = False, engineState = \<lparr>display = ''0''\<rparr>,
      mainDivCurrent = True, effects = [MainDivFocus]\<rparr>"
  by (simp add: mountedCalculator_def Calculator_constructor_def componentDidMount_def
      mainDivFocus_def entry_defs Let_def)

lemma finalizedCalculator_eq:
  "finalizedCalculator =
     \<lparr>displayValue = ''0'', equalsClicked = True, engineState = \<lparr>display = ''0''\<rparr>,
      mainDivCurrent = True,
      effects = [MainDivFocus, EngineProcessOperator Equals, MainDivFocus]\<rparr>"
  by (simp add: finalizedCalculator_def mountedCalculator_eq onOperatorButtonClick_def
      mainDivFocus_def entry_defs Let_def)

section \<open>The claims\<close>

subsection \<open>C1: the reset of commit and cancel\<close>

text \<open>
  Claim C1, as stated, fails in its last part. Type \<^verbatim>\<open>7\<close> into the mounted widget and
  commit (or cancel): \<^verbatim>\<open>_clearAll\<close> clears the engine, whose display is \<^verbatim>\<open>"0"\<close> again, and
  lowers the flag, but it never calls \<^verbatim>\<open>setState\<close>, so \<open>displayValue\<close> is still \<^verbatim>\<open>"7"\<close>.
\<close>

theorem C1_displayValue_not_refreshed:
  "displayValue (ok (entryProps None) (onValueButtonClick (entryProps None) ''7'' mountedCalculator))
     = ''7'' \<and>
   display (engineState
     (ok (entryProps None) (onValueButtonClick (entryProps None) ''7'' mountedCalculator)))
     = ''0'' \<and>
   displayValue (cancel (entryProps None) (onValueButtonClick (entryProps None) ''7'' mountedCalculator))
     = ''7'' \<and>
   display (engineState
     (cancel (entryProps None) (onValueButtonClick (entryProps None) ''7'' mountedCalculator)))
     = ''0''"
  by (simp add: mountedCalculator_eq handler_defs entry_defs Let_def)

text \<open>
  Claim C1, amended: after every call of commit (\<open>ok\<close>) or cancel, the engine's state is the
  one its \<^verbatim>\<open>clearAll()\<close> leaves, that call being the last effect, and \<open>equalsClicked\<close> (the
  spec's \<^verbatim>\<open>resultFinalized\<close>) is false; \<open>displayValue\<close> is the one before the call.
\<close>

theorem C1_commit_cancel_reset:
  "engineState (ok P s) = clearAll (engine P) (engineState s) \<and>
   last (effects (ok P s)) = EngineClearAll \<and>
   equalsClicked (ok P s) = False \<and>
   displayValue (ok P s) = displayValue s \<and>
   engineState (cancel P s) = clearAll (engine P) (engineState s) \<and>
   last (effects (cancel P s)) = EngineClearAll \<and>
   equalsClicked (cancel P s) = False \<and>
   displayValue (cancel P s) = displayValue s"
  by (simp add: reset_ok reset_cancel effects_ok effects_cancel)

subsection \<open>C2: the promotion of Clear\<close>

text \<open>
  Claim C2: on every call of \<^verbatim>\<open>submitOperator\<close> the engine receives exactly one operator
  call. Its operator is \<open>ClearAll\<close> when the operator passed is \<open>Clear\<close> and \<open>equalsClicked\<close>
  holds, and the operator passed in every other case; the engine's new state and the new
  \<open>displayValue\<close> are those of that call.
\<close>

theorem C2_clear_promotion:
  "effects (onOperatorButtonClick P operator s) =
     effects s @
     EngineProcessOperator (if operator = Clear \<and> equalsClicked s then ClearAll else operator) #
     (if mainDivCurrent s then [MainDivFocus] else []) \<and>
   engineState (onOperatorButtonClick P operator s) =
     snd (processOperator (engine P)
            (if operator = Clear \<and> equalsClicked s then ClearAll else operator) (engineState s)) \<and>
   displayValue (onOperatorButtonClick P operator s) =
     fst (processOperator (engine P)
            (if operator = Clear \<and> equalsClicked s then ClearAll else operator) (engineState s))"
  by (simp only: effects_onOperatorButtonClick engineState_onOperatorButtonClick
      displayValue_onOperatorButtonClick simp_thms)

text \<open>
  The three cases of the claim on the concrete widget: \<open>Clear\<close> after \<^verbatim>\<open>=\<close> reaches the
  engine as \<open>ClearAll\<close>, \<open>Backspace\<close> after \<^verbatim>\<open>=\<close> as \<open>Backspace\<close>, and \<open>Clear\<close> without a
  finalized result as \<open>Clear\<close>.
\<close>

theorem C2_clear_promotion_witness:
  "effects (onOperatorButtonClick (entryProps None) Clear finalizedCalculator) =
     effects finalizedCalculator @ [EngineProcessOperator ClearAll, MainDivFocus] \<and>
   effects (onOperatorButtonClick (entryProps None) Backspace finalizedCalculator) =
     effects finalizedCalculator @ [EngineProcessOperator Backspace, MainDivFocus] \<and>
   effects (onOperatorButtonClick (entryProps None) Clear mountedCalculator) =
     effects mountedCalculator @ [EngineProcessOperator Clear, MainDivFocus]"
  using C2_clear_promotion [of "entryProps None" Clear finalizedCalculator]
    C2_clear_promotion [of "entryProps None" Backspace finalizedCalculator]
    C2_clear_promotion [of "entryProps None" Clear mountedCalculator]
  by (simp add: finalizedCalculator_eq mountedCalculator_eq)

subsection \<open>C3: how the flag changes\<close>

text \<open>
  Claim C3: on every call of \<^verbatim>\<open>submitOperator\<close>, let \<open>op\<close> be the operator dispatched:
  \<open>ClearAll\<close> when the operator passed is \<open>Clear\<close> and \<open>equalsClicked\<close> holds, the operator
  passed otherwise. Then \<open>op\<close> is the operator the engine receives, and after the call
  \<open>equalsClicked\<close> is true if \<open>op\<close> is \<open>Equals\<close>, false if it is \<open>ClearAll\<close>, and as before
  otherwise. In terms of the operator passed: the flag is up afterwards exactly when the
  operator is \<open>Equals\<close>, or the flag was up and the operator is neither \<open>ClearAll\<close> nor
  \<open>Clear\<close>. \<^verbatim>\<open>submitValue\<close> leaves the flag as it is.
\<close>

theorem C3_equalsClicked_update:
  "(let op = (if operator = Clear \<and> equalsClicked s then ClearAll else operator)
    in effects (onOperatorButtonClick P operator s) =
         effects s @ EngineProcessOperator op #
         (if mainDivCurrent s then [MainDivFocus] else []) \<and>
       equalsClicked (onOperatorButtonClick P operator s) =
         (if op = Equals then True else if op = ClearAll then False else equalsClicked s)) \<and>
   equalsClicked (onOperatorButtonClick P operator s) =
     (operator = Equals \<or> (equalsClicked s \<and> operator \<noteq> ClearAll \<and> operator \<noteq> Clear)) \<and>
   equalsClicked (onValueButtonClick P keyChar s) = equalsClicked s"
proof -
  let ?op = "if operator = Clear \<and> equalsClicked s then ClearAll else operator"
  have flag: "equalsClicked (onOperatorButtonClick P operator s) =
          (if ?op = Equals then True else if ?op = ClearAll then False else equalsClicked s)"
    by (auto simp add: equalsClicked_onOperatorButtonClick)
  have log: "effects (onOperatorButtonClick P operator s) =
         effects s @ EngineProcessOperator ?op #
         (if mainDivCurrent s then [MainDivFocus] else [])"
    by (rule effects_onOperatorButtonClick)
  from flag log show ?thesis
    unfolding Let_def
    by (simp only: equalsClicked_onOperatorButtonClick equalsClicked_onValueButtonClick simp_thms)
qed

text \<open>
  On the concrete widget: \<open>Equals\<close> raises the flag; after it, \<open>Clear\<close> (promoted) and
  \<open>ClearAll\<close> lower it, \<open>Backspace\<close> and a digit keep it up; without a finalized result,
  \<open>Clear\<close>, \<open>Backspace\<close> and a digit keep it down.
\<close>

theorem C3_equalsClicked_update_witness:
  "equalsClicked (onOperatorButtonClick (entryProps None) Equals mountedCalculator) = True \<and>
   equalsClicked (onOperatorButtonClick (entryProps None) Clear finalizedCalculator) = False \<and>
   equalsClicked (onOperatorButtonClick (entryProps None) ClearAll finalizedCalculator) = False \<and>
   equalsClicked (onOperatorButtonClick (entryProps None) Backspace finalizedCalculator) = True \<and>
   equalsClicked (onValueButtonClick (entryProps None) ''7'' finalizedCalculator) = True \<and>
   equalsClicked (onOperatorButtonClick (entryProps None) Clear mountedCalculator) = False \<and>
   equalsClicked (onOperatorButtonClick (entryProps None) Backspace mountedCalculator) = False \<and>
   equalsClicked (onValueButtonClick (entryProps None) ''7'' mountedCalculator) = False"
proof -
  have fin: "equalsClicked finalizedCalculator = True"
    and mnt: "equalsClicked mountedCalculator = False"
    by (simp_all add: finalizedCalculator_eq mountedCalculator_eq)
  note c3 = C3_equalsClicked_update [where P = "entryProps None" and keyChar = "''7''"]
  from c3 [of Equals mountedCalculator] c3 [of Clear finalizedCalculator]
    c3 [of ClearAll finalizedCalculator] c3 [of Backspace finalizedCalculator]
    c3 [of Clear mountedCalculator] c3 [of Backspace mountedCalculator]
  show ?thesis
    unfolding Let_def by (simp add: fin mnt)
qed

subsection \<open>C4: the Enter key\<close>

text \<open>
  Claim C4: on \<^verbatim>\<open>Enter\<close>, if \<open>equalsClicked\<close> is false the handler first submits the
  operator \<open>Equals\<close> and then commits; if it is true the handler only commits. The effects
  are, in this order: the \<open>Equals\<close> call (in the first case only), the host's callback with
  the engine's result after that call (when supplied), and the engine's \<^verbatim>\<open>clearAll()\<close>.
\<close>

theorem C4_enter_key:
  "handleKeyDown P ''Enter'' s =
     ok P (if equalsClicked s then s else onOperatorButtonClick P Equals s) \<and>
   effects (handleKeyDown P ''Enter'' s) =
     effects s @
     (if equalsClicked s then []
      else EngineProcessOperator Equals # (if mainDivCurrent s then [MainDivFocus] else [])) @
     (if onOk P
      then [EngineResult,
            HostOnOk (result (engine P)
              (if equalsClicked s then engineState s
               else snd (processOperator (engine P) Equals (engineState s))))]
      else []) @
     [EngineClearAll]"
  by (simp add: handleKeyDown_def effects_ok effects_onOperatorButtonClick
      engineState_onOperatorButtonClick)

text \<open>
  The scenario of the spec: with \<^verbatim>\<open>42\<close> typed and no finalized result, \<^verbatim>\<open>Enter\<close> sends
  \<open>Equals\<close> to the engine, delivers 42 to the host and clears the engine.
\<close>

theorem C4_enter_key_witness:
  "effects (handleKeyDown (entryProps None) ''Enter''
     (onValueButtonClick (entryProps None) ''2''
        (onValueButtonClick (entryProps None) ''4'' mountedCalculator))) =
   [MainDivFocus, EngineProcessValue ''4'', MainDivFocus, EngineProcessValue ''2'', MainDivFocus,
    EngineProcessOperator Equals, MainDivFocus, EngineResult, HostOnOk (Finite 42),
    EngineClearAll]"
proof -
  let ?s = "onValueButtonClick (entryProps None) ''2''
              (onValueButtonClick (entryProps None) ''4'' mountedCalculator)"
  have s: "?s =
     \<lparr>displayValue = ''42'', equalsClicked = False, engineState = \<lparr>display = ''42''\<rparr>,
      mainDivCurrent = True,
      effects = [MainDivFocus, EngineProcessValue ''4'', MainDivFocus, EngineProcessValue ''2'',
                 MainDivFocus]\<rparr>"
    by (simp add: mountedCalculator_eq onValueButtonClick_def mainDivFocus_def entry_defs Let_def)
  from C4_enter_key [of "entryProps None" ?s]
  have "effects (handleKeyDown (entryProps None) ''Enter'' ?s) =
     effects ?s @
     (if equalsClicked ?s then []
      else EngineProcessOperator Equals # (if mainDivCurrent ?s then [MainDivFocus] else [])) @
     (if onOk (entryProps None)
      then [EngineResult,
            HostOnOk (result (engine (entryProps None))
              (if equalsClicked ?s then engineState ?s
               else snd (processOperator (engine (entryProps None)) Equals (engineState ?s))))]
      else []) @
     [EngineClearAll]"
    by (rule conjunct2)
  then show ?thesis
    unfolding s by (simp add: entry_defs Let_def)
qed

subsection \<open>C5: the Escape key\<close>

text \<open>
  Claim C5: on \<^verbatim>\<open>Escape\<close>, whatever \<open>equalsClicked\<close> is, the handler does what one call of
  cancel does and nothing else: the effects added are the host's cancel callback (when
  supplied) and the engine's \<^verbatim>\<open>clearAll()\<close>, with no value or operator call before them.
\<close>

theorem C5_escape_key:
  "handleKeyDown P ''Escape'' s = cancel P s \<and>
   effects (handleKeyDown P ''Escape'' s) =
     effects s @ (if onCancel P then [HostOnCancel] else []) @ [EngineClearAll]"
  by (simp add: handleKeyDown_def effects_cancel)

subsection \<open>C6: no Equals, no finalized result\<close>

text \<open>
  Claim C6: along every sequence of \<^verbatim>\<open>submitValue\<close> and \<^verbatim>\<open>submitOperator\<close> calls without
  the operator \<open>Equals\<close>, started in the state the constructor leaves (mounted or not),
  \<open>equalsClicked\<close> is false after every prefix of the sequence.
\<close>

theorem C6_no_equals_not_finalized:
  assumes "Operator Equals \<notin> set as"
  shows "\<not> equalsClicked (submitAll P (take n as) (Calculator_constructor toString P e)) \<and>
         \<not> equalsClicked
             (submitAll P (take n as) (componentDidMount (Calculator_constructor toString P e)))"
proof -
  from assms have "Operator Equals \<notin> set (take n as)"
    by (auto dest: in_set_takeD)
  then show ?thesis
    by (simp add: submitAll_not_finalized constructor_not_finalized)
qed

theorem C6_no_equals_not_finalized_witness:
  "Operator Equals \<notin> set [Value ''7'', Operator Add, Value ''3'', Operator Clear] \<and>
   \<not> equalsClicked
       (submitAll (entryProps None) (take 4 [Value ''7'', Operator Add, Value ''3'', Operator Clear])
          (Calculator_constructor integralToString (entryProps None) newEntryEngine)) \<and>
   \<not> equalsClicked
       (submitAll (entryProps None) (take 4 [Value ''7'', Operator Add, Value ''3'', Operator Clear])
          (componentDidMount
             (Calculator_constructor integralToString (entryProps None) newEntryEngine)))"
  using C6_no_equals_not_finalized [of "[Value ''7'', Operator Add, Value ''3'', Operator Clear]"
      "entryProps None" 4 integralToString newEntryEngine]
  by simp

subsection \<open>C7: the callbacks of commit and cancel\<close>

text \<open>
  Claim C7: commit calls the host's commit callback, when there is one, with the result the
  engine has before the reset; cancel calls the cancel callback, when there is one, without
  an argument; and with or without the callback both clear the engine and lower the flag.
\<close>

theorem C7_commit_cancel_callbacks:
  "effects (ok P s) =
     effects s @
     (if onOk P then [EngineResult, HostOnOk (result (engine P) (engineState s))] else []) @
     [EngineClearAll] \<and>
   effects (cancel P s) =
     effects s @ (if onCancel P then [HostOnCancel] else []) @ [EngineClearAll] \<and>
   engineState (ok P s) = clearAll (engine P) (engineState s) \<and>
   equalsClicked (ok P s) = False \<and>
   engineState (cancel P s) = clearAll (engine P) (engineState s) \<and>
   equalsClicked (cancel P s) = False"
  by (simp only: effects_ok effects_cancel reset_ok reset_cancel simp_thms)

text \<open>
  On the mounted widget: with both callbacks the host is told, \<^verbatim>\<open>onOk\<close> with the
  engine's result 0; with none the engine is cleared all the same.
\<close>

theorem C7_commit_cancel_callbacks_witness:
  "effects (ok (entryProps None) mountedCalculator) =
     [MainDivFocus, EngineResult, HostOnOk (Finite 0), EngineClearAll] \<and>
   effects (cancel (entryProps None) mountedCalculator) =
     [MainDivFocus, HostOnCancel, EngineClearAll] \<and>
   effects (ok bareProps mountedCalculator) = [MainDivFocus, EngineClearAll] \<and>
   effects (cancel bareProps mountedCalculator) = [MainDivFocus, EngineClearAll] \<and>
   engineState (ok bareProps mountedCalculator) = \<lparr>display = ''0''\<rparr> \<and>
   engineState (cancel bareProps mountedCalculator) = \<lparr>display = ''0''\<rparr>"
  using C7_commit_cancel_callbacks [of "entryProps None" mountedCalculator]
    C7_commit_cancel_callbacks [of bareProps mountedCalculator]
  by (simp add: mountedCalculator_eq entry_defs)

subsection \<open>C8: key pad and keyboard\<close>

text \<open>
  Claim C8, as stated, fails at the \<^verbatim>\<open>NegPos\<close> button: it is on the key pad, and no key of
  the keyboard does what a click on it does, here on the mounted widget.
\<close>

theorem C8_NegPos_has_no_key:
  "OperatorButton NegPos \<in> set CalculatorKeyPad \<and>
   \<not> (\<exists>key. handleKeyDown (entryProps None) key mountedCalculator =
              handleOnClick (entryProps None) (OperatorButton NegPos) mountedCalculator)"
  by (simp add: CalculatorKeyPad_def key_never_NegPos)

text \<open>
  Claim C8, amended: for every operator button of the key pad but \<^verbatim>\<open>NegPos\<close> there is a
  key that does, in every state, what a click on the button does, which is
  \<^verbatim>\<open>submitOperator\<close> with the button's operator; no key does what the \<^verbatim>\<open>NegPos\<close> button
  does; and for every digit button the key with the digit's character and the click both
  are \<^verbatim>\<open>submitValue\<close> of that character.
\<close>

theorem C8_keypad_keyboard_parity:
  assumes "b \<in> set CalculatorKeyPad"
  shows "case b of
           OperatorButton operator \<Rightarrow>
             (\<forall>P (s :: 'e Calculator). handleOnClick P b s = onOperatorButtonClick P operator s) \<and>
             (if operator = NegPos
              then \<forall>key P (s :: 'e Calculator). handleKeyDown P key s \<noteq> handleOnClick P b s
              else \<exists>key. \<forall>P (s :: 'e Calculator). handleKeyDown P key s = handleOnClick P b s)
         | ValueButton keyChar \<Rightarrow>
             (\<forall>P (s :: 'e Calculator).
                handleKeyDown P keyChar s = onValueButtonClick P keyChar s \<and>
                handleOnClick P b s = onValueButtonClick P keyChar s)"
proof -
  have k: "\<exists>key. \<forall>P (s :: 'e Calculator). handleKeyDown P key s = onOperatorButtonClick P operator s"
    if "\<forall>P (s :: 'e Calculator). handleKeyDown P key s = onOperatorButtonClick P operator s"
    for key operator
    using that by blast
  have "\<forall>P (s :: 'e Calculator). handleKeyDown P ''a'' s = onOperatorButtonClick P ClearAll s"
    "\<forall>P (s :: 'e Calculator). handleKeyDown P ''c'' s = onOperatorButtonClick P Clear s"
    "\<forall>P (s :: 'e Calculator). handleKeyDown P ''Backspace'' s = onOperatorButtonClick P Backspace s"
    "\<forall>P (s :: 'e Calculator). handleKeyDown P ''/'' s = onOperatorButtonClick P Divide s"
    "\<forall>P (s :: 'e Calculator). handleKeyDown P ''*'' s = onOperatorButtonClick P Multiply s"
    "\<forall>P (s :: 'e Calculator). handleKeyDown P ''-'' s = onOperatorButtonClick P Subtract s"
    "\<forall>P (s :: 'e Calculator). handleKeyDown P ''+'' s = onOperatorButtonClick P Add s"
    "\<forall>P (s :: 'e Calculator). handleKeyDown P ''.'' s = onOperatorButtonClick P Decimal s"
    "\<forall>P (s :: 'e Calculator). handleKeyDown P ''='' s = onOperatorButtonClick P Equals s"
    by (simp_all add: handleKeyDown_def)
  note keys = this [THEN k]
  from assms consider
    (operator) operator where "b = OperatorButton operator" "operator \<noteq> NegPos" |
    (negpos) "b = OperatorButton NegPos" |
    (digit) keyChar where "b = ValueButton keyChar"
      "keyChar \<in> set digitKeys"
    unfolding CalculatorKeyPad_def digitKeys_def by auto
  then show ?thesis
  proof cases
    case operator
    then show ?thesis
      using keys by (cases operator) simp_all
  next
    case negpos
    then show ?thesis
      by (simp add: key_never_NegPos)
  next
    case digit
    then show ?thesis
      by (auto simp add: handleKeyDown_def digitKeys_def)
  qed
qed

theorem C8_keypad_keyboard_parity_witness:
  "OperatorButton Add \<in> set CalculatorKeyPad \<and>
   (\<exists>key. \<forall>P (s :: entryEngine Calculator).
      handleKeyDown P key s = handleOnClick P (OperatorButton Add) s) \<and>
   ValueButton ''5'' \<in> set CalculatorKeyPad \<and>
   handleKeyDown (entryProps None) ''5'' mountedCalculator =
     onValueButtonClick (entryProps None) ''5'' mountedCalculator \<and>
   handleOnClick (entryProps None) (ValueButton ''5'') mountedCalculator =
     onValueButtonClick (entryProps None) ''5'' mountedCalculator"
proof -
  have a: "OperatorButton Add \<in> set CalculatorKeyPad"
    and v: "ValueButton ''5'' \<in> set CalculatorKeyPad"
    by (simp_all add: CalculatorKeyPad_def)
  from C8_keypad_keyboard_parity [OF a, where ?'e = entryEngine]
  have "\<exists>key. \<forall>P (s :: entryEngine Calculator).
      handleKeyDown P key s = handleOnClick P (OperatorButton Add) s"
    by simp
  moreover from C8_keypad_keyboard_parity [OF v, where ?'e = entryEngine]
  have "handleKeyDown (entryProps None) ''5'' mountedCalculator =
     onValueButtonClick (entryProps None) ''5'' mountedCalculator \<and>
   handleOnClick (entryProps None) (ValueButton ''5'') mountedCalculator =
     onValueButtonClick (entryProps None) ''5'' mountedCalculator"
    by simp
  ultimately show ?thesis
    using a v by simp
qed

subsection \<open>C9: keys outside the table\<close>

text \<open>
  Claim C9: for every key that the table of section 4.1 does not list, the handler returns
  the state it was given: no effect is added (no call of the engine, of a callback or of
  focus), and \<open>displayValue\<close>, \<open>equalsClicked\<close> and the engine's state are as before.
\<close>

theorem C9_unlisted_key_ignored:
  assumes "key \<notin> set keyTable"
  shows "handleKeyDown P key s = s"
  using assms by (simp add: handleKeyDown_def keyTable_def digitKeys_def)

theorem C9_unlisted_key_ignored_witness:
  "''Tab'' \<notin> set keyTable \<and>
   handleKeyDown (entryProps None) ''Tab'' finalizedCalculator = finalizedCalculator"
proof -
  have t: "''Tab'' \<notin> set keyTable"
    by (simp add: keyTable_def digitKeys_def)
  from C9_unlisted_key_ignored [OF t] show ?thesis
    using t by simp
qed

subsection \<open>C10: the seed of the display\<close>

text \<open>
  Claim C10: the constructor leaves \<open>displayValue\<close> at \<^verbatim>\<open>"0"\<close> without calling the engine
  when there is no initial value or it is falsy (a zero or NaN); otherwise it makes one
  \<^verbatim>\<open>processValue\<close> call, with the whole string of the initial value, and \<open>displayValue\<close> is
  what that call returns. The flag starts false.
\<close>

theorem C10_constructor_seed:
  "(let c = Calculator_constructor toString P e
    in equalsClicked c = False \<and>
       (case initialValue P of
          None \<Rightarrow> displayValue c = ''0'' \<and> effects c = [] \<and> engineState c = e
        | Some v \<Rightarrow>
            if v = NaN \<or> v = Finite 0
            then displayValue c = ''0'' \<and> effects c = [] \<and> engineState c = e
            else effects c = [EngineProcessValue (toString v)] \<and>
                 displayValue c = fst (processValue (engine P) (toString v) e) \<and>
                 engineState c = snd (processValue (engine P) (toString v) e)))"
  by (simp add: Calculator_constructor_def truthy_def Let_def split: option.splits prod.splits)

text \<open>With the initial value 42 the engine is sent the two characters at once; with 0, nothing.\<close>

theorem C10_constructor_seed_witness:
  "effects (Calculator_constructor integralToString (entryProps (Some (Finite 42))) newEntryEngine)
     = [EngineProcessValue ''42''] \<and>
   displayValue (Calculator_constructor integralToString (entryProps (Some (Finite 42))) newEntryEngine)
     = ''42'' \<and>
   effects (Calculator_constructor integralToString (entryProps (Some (Finite 0))) newEntryEngine)
     = [] \<and>
   displayValue (Calculator_constructor integralToString (entryProps (Some (Finite 0))) newEntryEngine)
     = ''0''"
  using C10_constructor_seed [of integralToString "entryProps (Some (Finite 42))" newEntryEngine]
    C10_constructor_seed [of integralToString "entryProps (Some (Finite 0))" newEntryEngine]
  by (simp add: Let_def entry_defs integralToString_def)

end
